theory Spec2Isabelle
  imports Main "HOL-Library.Sublist"
begin

section \<open>Python strings\<close>

text \<open>
  A Python \<open>str\<close> is a sequence of Unicode code points, so it is modelled as a list of
  natural numbers (the code points), not as a list of bytes: \<open>len\<close>, \<open>re.sub\<close>,
  \<open>strip\<close>, \<open>split\<close> and \<open>in\<close> all work per code point. \<open>u\<close> turns an ASCII
  literal of the source into that representation; the glyphs of the source that lie
  outside ASCII are written as their code points.
\<close>

type_synonym pystr = "nat list"

definition u :: "string \<Rightarrow> pystr" where
  "u s = map of_char s"

text \<open>
  The character class \<open>[a-zA-Z0-9\-_]\<close> of the regular expression at line 114
  (compiled without flags, so the ranges are the literal code point ranges).
\<close>

definition in_class :: "nat \<Rightarrow> bool" where
  "in_class c \<longleftrightarrow>
     (97 \<le> c \<and> c \<le> 122) \<or> (65 \<le> c \<and> c \<le> 90) \<or> (48 \<le> c \<and> c \<le> 57) \<or> c = 45 \<or> c = 95"

text \<open>\<open>re.sub(r'[^a-zA-Z0-9\-_]', '', s)\<close>: every code point outside the class is dropped.\<close>

definition re_sub_outside_class :: "pystr \<Rightarrow> pystr" where
  "re_sub_outside_class s = filter in_class s"

text \<open>
  \<open>str.lower()\<close>. On a string of ASCII code points it maps \<open>A\<close>..\<open>Z\<close> to
  \<open>a\<close>..\<open>z\<close> and leaves the rest. On a string with a code point beyond ASCII the result
  comes from the Unicode case tables of the Python runtime (context dependent: final
  sigma), which are no part of the repository: that part is the parameter \<open>ulower\<close>.
\<close>

definition ascii_lower :: "nat \<Rightarrow> nat" where
  "ascii_lower c = (if 65 \<le> c \<and> c \<le> 90 then c + 32 else c)"

definition is_ascii :: "pystr \<Rightarrow> bool" where
  "is_ascii s = list_all (\<lambda>c. c < 128) s"

definition py_lower :: "(pystr \<Rightarrow> pystr) \<Rightarrow> pystr \<Rightarrow> pystr" where
  "py_lower ulower s = (if is_ascii s then map ascii_lower s else ulower s)"

text \<open>
  Line 114 of \<open>request_handler\<close>:
  \<open>parameter = re.sub(r'[^a-zA-Z0-9\-_]', '', parameter).lower()\<close>.
\<close>

definition sanitize :: "(pystr \<Rightarrow> pystr) \<Rightarrow> pystr \<Rightarrow> pystr" where
  "sanitize ulower parameter = py_lower ulower (re_sub_outside_class parameter)"

text \<open>The output alphabet \<open>[a-z0-9_-]\<close> named by the specification.\<close>

definition in_lower_class :: "nat \<Rightarrow> bool" where
  "in_lower_class c \<longleftrightarrow>
     (97 \<le> c \<and> c \<le> 122) \<or> (48 \<le> c \<and> c \<le> 57) \<or> c = 45 \<or> c = 95"


text \<open>
  \<open>str.isspace\<close> per code point, as CPython decides it: the code points of
  bidirectional class WS, B or S and of category Zs.
\<close>

definition py_isspace :: "nat \<Rightarrow> bool" where
  "py_isspace c \<longleftrightarrow>
     (9 \<le> c \<and> c \<le> 13) \<or> (28 \<le> c \<and> c \<le> 32) \<or> c = 133 \<or> c = 160 \<or> c = 5760 \<or>
     (8192 \<le> c \<and> c \<le> 8202) \<or> c = 8232 \<or> c = 8233 \<or> c = 8239 \<or> c = 8287 \<or> c = 12288"

text \<open>\<open>s.strip()\<close>: leading and trailing whitespace removed.\<close>

definition py_strip :: "pystr \<Rightarrow> pystr" where
  "py_strip s = rev (dropWhile py_isspace (rev (dropWhile py_isspace s)))"

text \<open>
  \<open>s.split()\<close> with no separator: the maximal runs of non-whitespace, in order. The
  loop keeps the token it is reading in \<open>cur\<close>.
\<close>

fun split_from :: "pystr \<Rightarrow> pystr \<Rightarrow> pystr list" where
  "split_from cur [] = (if cur = [] then [] else [cur])"
| "split_from cur (c # cs) =
     (if py_isspace c then (if cur = [] then split_from [] cs else cur # split_from [] cs)
      else split_from (cur @ [c]) cs)"

definition py_split :: "pystr \<Rightarrow> pystr list" where
  "py_split s = split_from [] s"

text \<open>\<open>s.startswith(p)\<close> and the substring test \<open>sub in s\<close>.\<close>

fun startswith :: "pystr \<Rightarrow> pystr \<Rightarrow> bool" where
  "startswith s [] = True"
| "startswith [] (p # ps) = False"
| "startswith (c # cs) (p # ps) = (c = p \<and> startswith cs ps)"

fun py_in :: "pystr \<Rightarrow> pystr \<Rightarrow> bool" where
  "py_in sub [] = (sub = [])"
| "py_in sub (c # cs) = (startswith (c # cs) sub \<or> py_in sub cs)"

text \<open>\<open>x or d\<close> on a nullable string column: \<open>None\<close> and the empty string are falsy.\<close>

definition or_default :: "pystr option \<Rightarrow> pystr \<Rightarrow> pystr" where
  "or_default x d = (case x of None \<Rightarrow> d | Some s \<Rightarrow> if s = [] then d else s)"


section \<open>Data model\<close>

text \<open>
  The value of a column that a formatter renders as a time. The code looks at three
  things: whether the value is truthy, whether it has \<open>strftime\<close>, and its \<open>str\<close>.
  BigQuery hands a TIMESTAMP or DATETIME column over as a \<open>datetime.datetime\<close>, a DATE
  column as a \<open>datetime.date\<close>, a TIME column as a \<open>datetime.time\<close>: these three have
  \<open>strftime\<close> and are always truthy. Every other value has no \<open>strftime\<close>: a string
  (truthy when not empty, its \<open>str\<close> is itself), an integer (truthy when not zero, its
  \<open>str\<close> is its decimal numeral), or any other object (float, bool, bytes, decimal,
  array, struct), of which the model keeps the truth value and the \<open>str\<close>. NULL is
  \<open>None\<close>. The fields of the date and time objects are within the ranges the classes
  enforce (year 1..9999, month 1..12, day 1..31, hour 0..23, minute 0..59).
\<close>

record datetime =
  year :: nat
  month :: nat
  day :: nat
  hour :: nat
  minute :: nat

datatype structured =
  DateTimeObj datetime
| DateObj nat nat nat
| TimeObj nat nat

datatype unstructured =
  StrValue pystr
| IntValue int
| OtherValue bool pystr

datatype column_value = Structured structured | Unstructured unstructured

record resource_row =
  instance_id :: "pystr option"
  instance_name :: "pystr option"
  project_id :: "pystr option"
  status :: "pystr option"
  zone :: "pystr option"
  machine_type :: "pystr option"
  creation_timestamp :: "column_value option"
  instance_console_url :: "pystr option"

record status_row =
  item_name :: "pystr option"
  current_status :: "pystr option"
  details :: "pystr option"
  last_checked :: "column_value option"

text \<open>
  The blocks of a Slack message as the source builds them:
  \<open>{"type": "section", "text": {"type": "mrkdwn", "text": t}}\<close>,
  \<open>{"type": "actions", "elements": [...]}\<close>, \<open>{"type": "divider"}\<close>, and the one kind of
  element, \<open>{"type": "button", "text": {"type": "plain_text", "text": l, "emoji": e}, "url": a}\<close>.
\<close>

datatype element = Button (button_label: pystr) (button_emoji: bool) (button_url: pystr)

datatype block = Section pystr | Actions "element list" | Divider

fun block_type :: "block \<Rightarrow> pystr" where
  "block_type (Section t) = u ''section''"
| "block_type (Actions es) = u ''actions''"
| "block_type Divider = u ''divider''"

text \<open>
  The dictionaries the functions return: \<open>{"response_type": r, "text": t}\<close> or
  \<open>{"response_type": r, "blocks": bs}\<close>.
\<close>

datatype payload =
  TextPayload (response_type: pystr) (payload_text: pystr)
| BlocksPayload (response_type: pystr) (payload_blocks: "block list")

text \<open>
  What \<open>request_handler\<close> returns to the Functions Framework: a dictionary (sent as JSON
  with status 200) or the pair of a plain string and a status code.
\<close>

datatype http_result = Json payload | Plain pystr nat

text \<open>
  Exceptions. \<open>request_handler\<close> tells \<open>ValueError\<close> (with its subclasses) from every
  other \<open>Exception\<close>; both carry the message \<open>str(e)\<close>.
\<close>

datatype exn = ValueError pystr | OtherException pystr

text \<open>
  The request: the three headers the code reads, the two form fields it reads, and the
  raw body. A header or field that is not there is \<open>None\<close>.
\<close>

record request =
  content_type :: "pystr option"
  x_slack_request_timestamp :: "pystr option"
  x_slack_signature :: "pystr option"
  form_command :: "pystr option"
  form_text :: "pystr option"
  body :: pystr

text \<open>
  What the code calls outside the repository: the environment variable
  \<open>SLACK_SIGNING_SECRET\<close>, \<open>SignatureVerifier(secret).is_valid(body, timestamp, signature)\<close>
  of \<open>slack_sdk\<close> (which can raise, for instance \<open>ValueError\<close> from \<open>int(timestamp)\<close>),
  the two BigQuery queries with their parameter \<open>@resource_name\<close> (each returns its rows
  or raises), the case tables behind \<open>str.lower\<close>, and what the platform's \<open>strftime\<close>
  prints for \<open>%Y\<close> when the year is below 1000 (\<open>0999\<close> by the documentation, \<open>999\<close> with
  glibc).
\<close>

record deps =
  signing_secret :: "pystr option"
  is_valid :: "pystr \<Rightarrow> pystr \<Rightarrow> pystr \<Rightarrow> pystr \<Rightarrow> exn + bool"
  query_instances :: "pystr \<Rightarrow> exn + resource_row list"
  query_status :: "pystr \<Rightarrow> exn + status_row list"
  unicode_lower :: "pystr \<Rightarrow> pystr"
  year_below_1000 :: "nat \<Rightarrow> pystr"

text \<open>
  The effects a claim speaks about, in the order they happen: \<open>menu_controller\<close> was
  entered with a command and a parameter, a query was sent to the instances table, a
  query was sent to the status table.
\<close>

datatype event = Routed pystr pystr | InstancesQuery pystr | StatusQuery pystr


section \<open>Formatting\<close>

definition digit :: "nat \<Rightarrow> nat" where
  "digit n = 48 + n mod 10"

definition pad2 :: "nat \<Rightarrow> pystr" where
  "pad2 n = [digit (n div 10), digit n]"

definition pad4 :: "nat \<Rightarrow> pystr" where
  "pad4 n = [digit (n div 1000), digit (n div 100), digit (n div 10), digit n]"

text \<open>The decimal numeral of a natural number and \<open>str\<close> of an integer.\<close>

fun decimal :: "nat \<Rightarrow> pystr" where
  "decimal n = (if n < 10 then [digit n] else decimal (n div 10) @ [digit n])"

declare decimal.simps [simp del]

definition str_int :: "int \<Rightarrow> pystr" where
  "str_int i = (if i < 0 then u ''-'' @ decimal (nat (- i)) else decimal (nat i))"

text \<open>
  The format \<open>"%d-%m-%Y at %H:%M UTC"\<close>: day, month, hour and minute are zero-padded to
  two digits on every platform; a year from 1000 on has its four digits, a year below
  1000 is printed as the platform does.
\<close>

definition year_text :: "deps \<Rightarrow> nat \<Rightarrow> pystr" where
  "year_text d y = (if 1000 \<le> y then pad4 y else year_below_1000 d y)"

definition dmy_hm :: "deps \<Rightarrow> nat \<Rightarrow> nat \<Rightarrow> nat \<Rightarrow> nat \<Rightarrow> nat \<Rightarrow> pystr" where
  "dmy_hm d y m dd h mi =
     pad2 dd @ u ''-'' @ pad2 m @ u ''-'' @ year_text d y @ u '' at '' @
     pad2 h @ u '':'' @ pad2 mi @ u '' UTC''"

text \<open>
  \<open>v.strftime("%d-%m-%Y at %H:%M UTC")\<close>. A \<open>date\<close> has hour and minute 0; for a
  \<open>time\<close>, 1900 is substituted for the year and 1 for month and day.
\<close>

fun strftime_dmy_hm :: "deps \<Rightarrow> structured \<Rightarrow> pystr" where
  "strftime_dmy_hm d (DateTimeObj t) = dmy_hm d (year t) (month t) (day t) (hour t) (minute t)"
| "strftime_dmy_hm d (DateObj y m dd) = dmy_hm d y m dd 0 0"
| "strftime_dmy_hm d (TimeObj h mi) = dmy_hm d 1900 1 1 h mi"

text \<open>\<open>bool(v)\<close> and \<open>str(v)\<close> of a value without \<open>strftime\<close>.\<close>

fun truthy :: "unstructured \<Rightarrow> bool" where
  "truthy (StrValue s) = (s \<noteq> [])"
| "truthy (IntValue i) = (i \<noteq> 0)"
| "truthy (OtherValue b s) = b"

fun py_str :: "unstructured \<Rightarrow> pystr" where
  "py_str (StrValue s) = s"
| "py_str (IntValue i) = str_int i"
| "py_str (OtherValue b s) = s"

text \<open>
  Lines 206-210 of \<open>get_resource_info\<close> and, with another variable, lines 295-299 of
  \<open>check_resource_status\<close>:
  \<^verbatim>\<open>
  formatted_time = "Not available"
  if v and hasattr(v, 'strftime'):
      formatted_time = v.strftime("%d-%m-%Y at %H:%M UTC")
  elif v:
      formatted_time = str(v)
  \<close>
  \<open>None\<close> is falsy, so neither branch runs. A date or time object is truthy and has
  \<open>strftime\<close>: the first branch. Any other value has no \<open>strftime\<close>; it reaches the
  \<open>elif\<close>, which runs when the value is truthy.
\<close>

definition formatted_time :: "deps \<Rightarrow> column_value option \<Rightarrow> pystr" where
  "formatted_time d v =
     (case v of
        None \<Rightarrow> u ''Not available''
      | Some (Structured x) \<Rightarrow> strftime_dmy_hm d x
      | Some (Unstructured x) \<Rightarrow> if truthy x then py_str x else u ''Not available'')"

text \<open>The f-string \<open>message_text\<close> of \<open>get_resource_info\<close> (lines 213-223).\<close>

definition message_text :: "deps \<Rightarrow> resource_row \<Rightarrow> pystr" where
  "message_text d row =
     [8505, 65039] @ u '' Information for *'' @ or_default (instance_name row) (u ''N/A'') @
     u ''* (ID: *'' @ or_default (instance_id row) (u ''N/A'') @ u ''*):'' @ [10] @
     u ''   '' @ [8226] @ u '' Project: *'' @ or_default (project_id row) (u ''N/A'') @ u ''*'' @ [10] @
     u ''   '' @ [8226] @ u '' Status: *'' @ or_default (status row) (u ''N/A'') @ u ''*'' @ [10] @
     u ''   '' @ [8226] @ u '' Zone: *'' @ or_default (zone row) (u ''N/A'') @ u ''*'' @ [10] @
     u ''   '' @ [8226] @ u '' Machine Type: *'' @ or_default (machine_type row) (u ''N/A'') @ u ''*'' @ [10] @
     u ''   '' @ [8226] @ u '' Created/Updated: _'' @ formatted_time d (creation_timestamp row) @ u ''_''"

text \<open>The list \<open>action_elements\<close> of one row (lines 227-231).\<close>

definition action_elements :: "resource_row \<Rightarrow> element list" where
  "action_elements row =
     (case instance_console_url row of
        None \<Rightarrow> []
      | Some a \<Rightarrow> if a = [] then []
                  else [Button ([128279] @ u '' Open in GCP Console'') True a])"

text \<open>The loop \<open>for row in rows\<close> (lines 204-242), appending to \<open>blocks\<close>.\<close>

fun append_rows :: "deps \<Rightarrow> resource_row list \<Rightarrow> block list \<Rightarrow> block list" where
  "append_rows d [] blocks = blocks"
| "append_rows d (row # rows) blocks =
     append_rows d rows
       ((if action_elements row \<noteq> []
         then (blocks @ [Section (message_text d row)]) @ [Actions (action_elements row)]
         else blocks @ [Section (message_text d row)]) @ [Divider])"

text \<open>Lines 245-246: \<open>if blocks and blocks[-1]["type"] == "divider": blocks.pop()\<close>.\<close>

definition pop_last_divider :: "block list \<Rightarrow> block list" where
  "pop_last_divider blocks =
     (if blocks \<noteq> [] \<and> block_type (last blocks) = u ''divider'' then butlast blocks else blocks)"

text \<open>
  \<open>get_resource_info\<close>: the query is sent; if it raises, so does the function; no rows
  give the text reply, rows give the blocks.
\<close>

definition get_resource_info :: "deps \<Rightarrow> pystr \<Rightarrow> (exn + payload) \<times> event list" where
  "get_resource_info d resource_name =
     (case query_instances d resource_name of
        Inl e \<Rightarrow> (Inl e, [InstancesQuery resource_name])
      | Inr rows \<Rightarrow>
          if rows = [] then
            (Inr (TextPayload (u ''ephemeral'')
                    (u ''No information found for resource: *'' @ resource_name @ u ''*.'')),
             [InstancesQuery resource_name])
          else
            (Inr (BlocksPayload (u ''ephemeral'') (pop_last_divider (append_rows d rows []))),
             [InstancesQuery resource_name]))"

text \<open>
  \<open>check_resource_status\<close> (lines 283-322). \<open>status_value\<close> is the lower-cased status, or
  \<open>"unknown"\<close> when the column is NULL; the tier is chosen by the chain of substring tests.
\<close>

definition status_value :: "(pystr \<Rightarrow> pystr) \<Rightarrow> status_row \<Rightarrow> pystr" where
  "status_value ulower row =
     (case current_status row of None \<Rightarrow> u ''unknown'' | Some s \<Rightarrow> py_lower ulower s)"

text \<open>Lines 303-311: the pair of \<open>emoji\<close> and \<open>message\<close>.\<close>

definition emoji_message :: "(pystr \<Rightarrow> pystr) \<Rightarrow> pystr \<Rightarrow> status_row \<Rightarrow> pystr \<times> pystr" where
  "emoji_message ulower resource_name row =
     (let sv = status_value ulower row;
          name = or_default (item_name row) resource_name;
          shown = or_default (current_status row) (u ''N/A'')
      in if py_in (u ''active'') sv \<or> py_in (u ''ok'') sv \<or> py_in (u ''complete'') sv then
           ([9989], u ''Resource *'' @ name @ u ''* has a favorable status: *'' @ shown @ u ''*.'')
         else if py_in (u ''pending'') sv \<or> py_in (u ''in progress'') sv then
           ([9203], u ''Resource *'' @ name @ u ''* has status: *'' @ shown @ u ''*.'')
         else
           ([10060], u ''Resource *'' @ name @ u ''* requires attention. Status: *'' @ shown @ u ''*.''))"

text \<open>Lines 294-299 and 313-317: \<open>full_response_text\<close>.\<close>

definition status_text :: "deps \<Rightarrow> pystr \<Rightarrow> status_row \<Rightarrow> pystr" where
  "status_text d resource_name row =
     (let details_value = or_default (details row) (u ''No additional details.'');
          last_checked_time = formatted_time d (last_checked row)
      in case emoji_message (unicode_lower d) resource_name row of
           (emoji, message) \<Rightarrow>
             emoji @ u '' '' @ message @ [10] @
             u ''   '' @ [8226] @ u '' Details: _'' @ details_value @ u ''_'' @ [10] @
             u ''   '' @ [8226] @ u '' Last checked: _'' @ last_checked_time @ u ''_'')"

definition check_resource_status :: "deps \<Rightarrow> pystr \<Rightarrow> (exn + payload) \<times> event list" where
  "check_resource_status d resource_name =
     (case query_status d resource_name of
        Inl e \<Rightarrow> (Inl e, [StatusQuery resource_name])
      | Inr rows \<Rightarrow>
          (case rows of
             [] \<Rightarrow>
               (Inr (TextPayload (u ''ephemeral'')
                       ([10067] @ u '' Resource *'' @ resource_name @
                        u ''* was not found for status check.'')),
                [StatusQuery resource_name])
           | row # _ \<Rightarrow>
               (Inr (TextPayload (u ''ephemeral'')
                       (status_text d resource_name row)),
                [StatusQuery resource_name])))"


section \<open>Routing and the request handler\<close>

definition menu_controller :: "deps \<Rightarrow> pystr \<Rightarrow> pystr \<Rightarrow> (exn + payload) \<times> event list" where
  "menu_controller d command parameter =
     (if command = u ''/getinfo'' then
        (case get_resource_info d parameter of (r, es) \<Rightarrow> (r, Routed command parameter # es))
      else if command = u ''/checkstatus'' then
        (case check_resource_status d parameter of (r, es) \<Rightarrow> (r, Routed command parameter # es))
      else
        (Inr (TextPayload (u ''ephemeral'') (u ''Command '' @ [39] @ command @ [39] @ u '' not recognized.'')),
         [Routed command parameter]))"

definition missing_secret_message :: pystr where
  "missing_secret_message =
     u ''Server configuration does not include Slack signing secret. Verification skipped (INSECURE).''"

text \<open>\<open>headers.get(k, '')\<close> and \<open>form.get(k, '')\<close>: the value, or the empty string.\<close>

definition get_or_empty :: "pystr option \<Rightarrow> pystr" where
  "get_or_empty h = (case h of None \<Rightarrow> [] | Some v \<Rightarrow> v)"

definition verify_slack_signature :: "deps \<Rightarrow> request \<Rightarrow> exn + bool" where
  "verify_slack_signature d r =
     (case signing_secret d of
        None \<Rightarrow> Inl (ValueError missing_secret_message)
      | Some secret \<Rightarrow>
          if secret = [] then Inl (ValueError missing_secret_message)
          else
            (case is_valid d secret (body r) (get_or_empty (x_slack_request_timestamp r))
                    (get_or_empty (x_slack_signature r)) of
               Inl e \<Rightarrow> Inl e
             | Inr ok \<Rightarrow> if \<not> ok then Inl (ValueError (u ''Invalid Slack signature.'')) else Inr True))"

text \<open>The two \<open>except\<close> clauses of \<open>request_handler\<close> (lines 123-135).\<close>

definition on_exception :: "exn \<Rightarrow> http_result" where
  "on_exception e =
     (case e of
        ValueError m \<Rightarrow> Json (TextPayload (u ''ephemeral'') (u ''Validation Error: '' @ m))
      | OtherException m \<Rightarrow>
          Json (TextPayload (u ''ephemeral'')
                  (u ''Sorry, an error occurred while processing your request. Please try again later.'')))"

definition request_handler :: "deps \<Rightarrow> request \<Rightarrow> http_result \<times> event list" where
  "request_handler d r =
     (if content_type r = Some (u ''application/x-www-form-urlencoded'') then
        (case verify_slack_signature d r of
           Inl e \<Rightarrow> (on_exception e, [])
         | Inr _ \<Rightarrow>
             (let command = py_strip (get_or_empty (form_command r));
                  parameter = py_strip (get_or_empty (form_text r))
              in if command = [] then
                   (Json (TextPayload (u ''ephemeral'') (u ''Error: No command was provided.'')), [])
                 else if parameter = [] \<or> length (py_split parameter) > 1 then
                   (Json (TextPayload (u ''ephemeral'')
                            (u ''Error: A single parameter was expected. Example: '' @ command @
                             u '' my-resource'')), [])
                 else
                   (case menu_controller d command (sanitize (unicode_lower d) parameter) of
                      (Inl e, es) \<Rightarrow> (on_exception e, es)
                    | (Inr p, es) \<Rightarrow> (Json p, es))))
      else
        (Plain (u ''This request does not appear to be from Slack (incorrect Content-Type).'') 400, []))"


section \<open>The specification's wording\<close>

text \<open>
  What one row contributes to the block list according to the specification: a section,
  then an actions block with the single console button only if the console URL is not
  empty, then a divider.
\<close>

definition row_blocks :: "deps \<Rightarrow> resource_row \<Rightarrow> block list" where
  "row_blocks d row =
     [Section (message_text d row)] @
     (case instance_console_url row of
        None \<Rightarrow> []
      | Some a \<Rightarrow>
          if a \<noteq> [] then [Actions [Button ([128279] @ u '' Open in GCP Console'') True a]]
          else []) @
     [Divider]"

text \<open>
  The three tiers of the status formatter according to the specification: favorable if
  the status contains "active", "ok" or "complete", else pending if it contains "pending"
  or "in progress", else unfavorable. \<open>has\<close> says which words the status contains.
\<close>

datatype tier = Favorable | Pending | Unfavorable

definition tier_by :: "(pystr \<Rightarrow> bool) \<Rightarrow> tier" where
  "tier_by has =
     (if has (u ''active'') \<or> has (u ''ok'') \<or> has (u ''complete'') then Favorable
      else if has (u ''pending'') \<or> has (u ''in progress'') then Pending
      else Unfavorable)"

text \<open>
  A word is contained in a status case-insensitively when it is a contiguous sublist of
  the status with its letters \<open>A\<close>..\<open>Z\<close> lowered.
\<close>

definition contains_ci :: "pystr \<Rightarrow> pystr \<Rightarrow> bool" where
  "contains_ci s w = sublist w (map ascii_lower s)"

text \<open>The glyph and the wording of each tier (check mark, hourglass, cross).\<close>

fun tier_glyph :: "tier \<Rightarrow> pystr" where
  "tier_glyph Favorable = [9989]"
| "tier_glyph Pending = [9203]"
| "tier_glyph Unfavorable = [10060]"

fun tier_wording :: "tier \<Rightarrow> pystr" where
  "tier_wording Favorable = u ''* has a favorable status: *''"
| "tier_wording Pending = u ''* has status: *''"
| "tier_wording Unfavorable = u ''* requires attention. Status: *''"

text \<open>The two lines that follow the tier message in the status reply.\<close>

definition detail_lines :: "deps \<Rightarrow> status_row \<Rightarrow> pystr" where
  "detail_lines d row =
     [10] @ u ''   '' @ [8226] @ u '' Details: _'' @
     or_default (details row) (u ''No additional details.'') @ u ''_'' @ [10] @
     u ''   '' @ [8226] @ u '' Last checked: _'' @ formatted_time d (last_checked row) @ u ''_''"

text \<open>The whole status reply of a tier.\<close>

definition tier_reply :: "deps \<Rightarrow> tier \<Rightarrow> pystr \<Rightarrow> status_row \<Rightarrow> pystr" where
  "tier_reply d t resource_name row =
     tier_glyph t @ u '' Resource *'' @ or_default (item_name row) resource_name @
     tier_wording t @ or_default (current_status row) (u ''N/A'') @ u ''*.'' @ detail_lines d row"


section \<open>Example inputs\<close>

text \<open>
  A deployment with a secret, a verifier that accepts the signature \<open>v0=ok\<close>, empty
  tables, no case mapping beyond ASCII and years below 1000 printed without padding; and
  a signed \<open>/getinfo My-VM\<close> request.
\<close>

definition example_deps :: deps where
  "example_deps =
     \<lparr>signing_secret = Some (u ''s3cr3t''),
      is_valid = (\<lambda>secret b t g. Inr (g = u ''v0=ok'')),
      query_instances = (\<lambda>n. Inr []),
      query_status = (\<lambda>n. Inr []),
      unicode_lower = id,
      year_below_1000 = decimal\<rparr>"

definition example_request :: request where
  "example_request =
     \<lparr>content_type = Some (u ''application/x-www-form-urlencoded''),
      x_slack_request_timestamp = Some (u ''1700000000''),
      x_slack_signature = Some (u ''v0=ok''),
      form_command = Some (u ''/getinfo''),
      form_text = Some (u ''My-VM''),
      body = u ''command=%2Fgetinfo&text=My-VM''\<rparr>"

text \<open>A row of the instances table and a row of the status table.\<close>

definition example_row :: resource_row where
  "example_row =
     \<lparr>instance_id = Some (u ''1234''), instance_name = Some (u ''my-vm''),
      project_id = Some (u ''proj''), status = Some (u ''RUNNING''), zone = Some (u ''z1''),
      machine_type = None,
      creation_timestamp =
        Some (Structured (DateTimeObj \<lparr>year = 2024, month = 3, day = 7, hour = 9, minute = 5\<rparr>)),
      instance_console_url = Some (u ''https://console.cloud.google.com/x'')\<rparr>"

definition example_status_row :: status_row where
  "example_status_row =
     \<lparr>item_name = Some (u ''my-vm''), current_status = Some (u ''Pending activation''),
      details = None, last_checked = Some (Unstructured (StrValue []))\<rparr>"


section \<open>Sanitising the parameter\<close>

lemma in_class_ascii: "in_class c \<Longrightarrow> c < 128"
  by (auto simp: in_class_def)

lemma is_ascii_re_sub: "is_ascii (re_sub_outside_class s)"
  by (simp add: is_ascii_def re_sub_outside_class_def list_all_iff in_class_ascii)

lemma sanitize_eq: "sanitize ulower s = map ascii_lower (filter in_class s)"
  using is_ascii_re_sub [of s]
  by (simp add: sanitize_def py_lower_def re_sub_outside_class_def)

lemma in_lower_class_ascii_lower: "in_class c \<Longrightarrow> in_lower_class (ascii_lower c)"
  by (auto simp: in_class_def in_lower_class_def ascii_lower_def)

lemma in_lower_class_fixed: "in_lower_class c \<Longrightarrow> in_class c \<and> ascii_lower c = c"
  by (auto simp: in_class_def in_lower_class_def ascii_lower_def)

lemma sanitize_alphabet: "c \<in> set (sanitize ulower s) \<Longrightarrow> in_lower_class c"
  by (auto simp: sanitize_eq in_lower_class_ascii_lower)

lemma sanitize_fixed:
  assumes "list_all in_lower_class s"
  shows "sanitize ulower s = s"
proof -
  from assms have "filter in_class s = s"
    by (simp add: list_all_iff in_lower_class_fixed)
  moreover from assms have "map ascii_lower s = s"
    by (simp add: list_all_iff in_lower_class_fixed map_idI)
  ultimately show ?thesis
    by (simp add: sanitize_eq)
qed

text \<open>
  C2. For every raw parameter (any sequence of code points) and whatever the case tables
  of the runtime are, the sanitised parameter consists of code points of \<open>[a-z0-9_-]\<close>
  only, and sanitising it again changes nothing.
\<close>

theorem sanitize_alphabet_idempotent:
  "list_all in_lower_class (sanitize ulower x) \<and>
   sanitize ulower (sanitize ulower x) = sanitize ulower x"
proof -
  have a: "list_all in_lower_class (sanitize ulower x)"
    by (simp add: list_all_iff sanitize_alphabet)
  from a have "sanitize ulower (sanitize ulower x) = sanitize ulower x"
    by (rule sanitize_fixed)
  with a show ?thesis by simp
qed

theorem sanitize_alphabet_idempotent_witness:
  "sanitize id (u ''My_VM-01 $x'') = u ''my_vm-01x'' \<and>
   list_all in_lower_class (sanitize id (u ''My_VM-01 $x'')) \<and>
   sanitize id (sanitize id (u ''My_VM-01 $x'')) = sanitize id (u ''My_VM-01 $x'')"
proof -
  have "sanitize id (u ''My_VM-01 $x'') = u ''my_vm-01x''"
    by (simp add: sanitize_eq u_def in_class_def ascii_lower_def)
  with sanitize_alphabet_idempotent [of id "u ''My_VM-01 $x''"] show ?thesis
    by simp
qed


section \<open>Whitespace and substrings\<close>

lemma split_from_trailing_space:
  "py_isspace c \<Longrightarrow> split_from cur (s @ [c]) = split_from cur s"
  by (induction s arbitrary: cur) auto

lemma split_from_trailing_spaces:
  "list_all py_isspace ws \<Longrightarrow> split_from cur (s @ ws) = split_from cur s"
proof (induction ws rule: rev_induct)
  case Nil
  then show ?case by simp
next
  case (snoc w ws)
  then have "split_from cur ((s @ ws) @ [w]) = split_from cur (s @ ws)"
    by (intro split_from_trailing_space) simp
  with snoc show ?case by simp
qed

lemma split_from_leading_spaces:
  "split_from [] (dropWhile py_isspace s) = split_from [] s"
  by (induction s) auto

lemma rstrip_decompose:
  "s = rev (dropWhile py_isspace (rev s)) @ rev (takeWhile py_isspace (rev s))"
proof -
  have "rev s = takeWhile py_isspace (rev s) @ dropWhile py_isspace (rev s)"
    by simp
  then have "rev (rev s) = rev (takeWhile py_isspace (rev s) @ dropWhile py_isspace (rev s))"
    by (rule arg_cong)
  then show ?thesis by (simp only: rev_rev_ident rev_append)
qed

text \<open>Stripping a string does not change its tokens.\<close>

lemma py_split_strip: "py_split (py_strip s) = py_split s"
proof -
  let ?t = "dropWhile py_isspace s"
  have ws: "list_all py_isspace (rev (takeWhile py_isspace (rev ?t)))"
    by (simp add: list_all_iff) (meson set_takeWhileD)
  have "split_from [] ?t =
        split_from [] (rev (dropWhile py_isspace (rev ?t)) @ rev (takeWhile py_isspace (rev ?t)))"
    using rstrip_decompose [of ?t] by simp
  also have "\<dots> = split_from [] (rev (dropWhile py_isspace (rev ?t)))"
    using ws by (rule split_from_trailing_spaces)
  finally show ?thesis
    by (simp add: py_split_def py_strip_def split_from_leading_spaces)
qed

lemma startswith_iff: "startswith s p \<longleftrightarrow> (\<exists>ss. s = p @ ss)"
  by (induction s p rule: startswith.induct) auto

text \<open>\<open>py_in\<close> is the substring relation.\<close>

lemma py_in_iff: "py_in sub s \<longleftrightarrow> (\<exists>ps ss. s = ps @ sub @ ss)"
proof (induction s)
  case Nil
  then show ?case by auto
next
  case (Cons c cs)
  show ?case
  proof
    assume "py_in sub (c # cs)"
    then consider "startswith (c # cs) sub" | "py_in sub cs" by auto
    then show "\<exists>ps ss. c # cs = ps @ sub @ ss"
    proof cases
      case 1
      then obtain ss where "c # cs = sub @ ss" by (auto simp: startswith_iff)
      then have "c # cs = [] @ sub @ ss" by simp
      then show ?thesis by blast
    next
      case 2
      with Cons obtain ps ss where "cs = ps @ sub @ ss" by auto
      then have "c # cs = (c # ps) @ sub @ ss" by simp
      then show ?thesis by blast
    qed
  next
    assume "\<exists>ps ss. c # cs = ps @ sub @ ss"
    then obtain ps ss where e: "c # cs = ps @ sub @ ss" by auto
    show "py_in sub (c # cs)"
    proof (cases ps)
      case Nil
      with e have "startswith (c # cs) sub" by (auto simp: startswith_iff)
      then show ?thesis by simp
    next
      case (Cons q qs)
      with e have "cs = qs @ sub @ ss" by simp
      with Cons.IH have "py_in sub cs" by blast
      then show ?thesis by simp
    qed
  qed
qed

lemma single_token_passes:
  assumes "length (py_split t) = 1"
  shows "py_strip t \<noteq> [] \<and> \<not> 1 < length (py_split (py_strip t))"
proof -
  from assms have "py_split t \<noteq> []"
    by auto
  then have "py_split (py_strip t) \<noteq> []"
    by (simp add: py_split_strip)
  then have "py_strip t \<noteq> []"
    by (auto simp: py_split_def)
  with assms show ?thesis by (simp add: py_split_strip)
qed

lemma bad_parameter_rejected:
  assumes "t = [] \<or> 1 < length (py_split t)"
  shows "py_strip t = [] \<or> 1 < length (py_split (py_strip t))"
proof (cases "t = []")
  case True
  then show ?thesis by (simp add: py_strip_def)
next
  case False
  with assms show ?thesis by (simp add: py_split_strip)
qed

text \<open>
  On an ASCII string, \<open>p in s.lower()\<close> says that some substring of \<open>s\<close> is \<open>p\<close> up
  to the case of its letters.
\<close>

lemma ascii_ci_substring:
  assumes "is_ascii s"
  shows "py_in p (py_lower ulower s) \<longleftrightarrow> (\<exists>ps t ss. s = ps @ t @ ss \<and> map ascii_lower t = p)"
proof -
  have "py_in p (map ascii_lower s) \<longleftrightarrow> (\<exists>ps t ss. s = ps @ t @ ss \<and> map ascii_lower t = p)"
  proof
    assume "py_in p (map ascii_lower s)"
    then obtain a b where "map ascii_lower s = a @ p @ b"
      by (auto simp: py_in_iff)
    define t where "t = take (length p) (drop (length a) s)"
    have "map ascii_lower t = take (length p) (drop (length a) (map ascii_lower s))"
      by (simp add: t_def take_map drop_map)
    also have "\<dots> = p"
      by (simp add: \<open>map ascii_lower s = a @ p @ b\<close>)
    finally have "map ascii_lower t = p" .
    moreover have "s = take (length a) s @ t @ drop (length p) (drop (length a) s)"
      unfolding t_def by (simp only: append_take_drop_id)
    ultimately show "\<exists>ps t ss. s = ps @ t @ ss \<and> map ascii_lower t = p" by blast
  next
    assume "\<exists>ps t ss. s = ps @ t @ ss \<and> map ascii_lower t = p"
    then obtain ps t ss where "s = ps @ t @ ss" "map ascii_lower t = p" by blast
    then have "map ascii_lower s = map ascii_lower ps @ p @ map ascii_lower ss" by simp
    then show "py_in p (map ascii_lower s)"
      unfolding py_in_iff by blast
  qed
  with assms show ?thesis by (simp add: py_lower_def)
qed


section \<open>Facts about the example inputs\<close>

lemma example_request_content_type:
  "content_type example_request = Some (u ''application/x-www-form-urlencoded'')"
  by (simp add: example_request_def)

lemma example_request_signed:
  "verify_slack_signature example_deps (example_request\<lparr>form_command := c, form_text := t\<rparr>) =
     Inr True"
  by (simp add: verify_slack_signature_def example_deps_def example_request_def get_or_empty_def u_def)

lemma split_foo_bar: "py_split (u ''foo bar'') = [u ''foo'', u ''bar'']"
  by (simp add: py_split_def py_isspace_def u_def)


section \<open>A missing signing secret\<close>

lemma verify_missing_secret:
  "signing_secret d = None \<or> signing_secret d = Some [] \<Longrightarrow>
   verify_slack_signature d r = Inl (ValueError missing_secret_message)"
  by (auto simp: verify_slack_signature_def)

text \<open>
  C1. A request with the form content type, handled while \<open>SLACK_SIGNING_SECRET\<close> is
  unset or empty: the verification raises \<open>ValueError\<close> with the reason, and the handler
  answers with the ephemeral text "Validation Error: " followed by that reason. The list
  of effects is empty: \<open>menu_controller\<close> is not entered and no query is sent.
\<close>

theorem missing_secret_is_validation_error:
  assumes "content_type r = Some (u ''application/x-www-form-urlencoded'')"
    and "signing_secret d = None \<or> signing_secret d = Some []"
  shows "verify_slack_signature d r = Inl (ValueError missing_secret_message) \<and>
         request_handler d r =
           (Json (TextPayload (u ''ephemeral'') (u ''Validation Error: '' @ missing_secret_message)), [])"
  using assms by (simp add: request_handler_def verify_missing_secret on_exception_def)

theorem missing_secret_is_validation_error_witness:
  "request_handler (example_deps\<lparr>signing_secret := None\<rparr>) example_request =
     (Json (TextPayload (u ''ephemeral'') (u ''Validation Error: '' @ missing_secret_message)), [])"
  using missing_secret_is_validation_error
          [of example_request "example_deps\<lparr>signing_secret := None\<rparr>"]
  by (simp add: example_deps_def example_request_def)


section \<open>The resource reply\<close>

lemma row_blocks_loop_body:
  "(if action_elements row \<noteq> []
    then (bs @ [Section (message_text d row)]) @ [Actions (action_elements row)]
    else bs @ [Section (message_text d row)]) @ [Divider] = bs @ row_blocks d row"
  by (simp add: row_blocks_def action_elements_def split: option.splits)

lemma append_rows_concat: "append_rows d rows bs = bs @ concat (map (row_blocks d) rows)"
proof (induction rows arbitrary: bs)
  case Nil
  then show ?case by simp
next
  case (Cons row rows)
  show ?case
    by (simp only: append_rows.simps row_blocks_loop_body Cons.IH) simp
qed

lemma divider_type: "block_type b = u ''divider'' \<longleftrightarrow> b = Divider"
  by (cases b) (simp_all add: u_def)

lemma row_blocks_shape:
  "\<exists>pre. row_blocks d row = pre @ [Divider] \<and> pre \<noteq> [] \<and> last pre \<noteq> Divider"
  by (simp add: row_blocks_def split: option.splits)

lemma concat_row_blocks_shape:
  assumes "rows \<noteq> []"
  shows "\<exists>pre. concat (map (row_blocks d) rows) = pre @ [Divider] \<and> pre \<noteq> [] \<and> last pre \<noteq> Divider"
proof -
  from assms obtain front row where rows: "rows = front @ [row]"
    by (metis append_butlast_last_id)
  obtain pre where pre: "row_blocks d row = pre @ [Divider]" "pre \<noteq> []" "last pre \<noteq> Divider"
    using row_blocks_shape by blast
  have "concat (map (row_blocks d) rows) = (concat (map (row_blocks d) front) @ pre) @ [Divider]"
    by (simp add: rows pre)
  moreover have "concat (map (row_blocks d) front) @ pre \<noteq> []"
    using pre by simp
  moreover have "last (concat (map (row_blocks d) front) @ pre) \<noteq> Divider"
    using pre by simp
  ultimately show ?thesis by blast
qed

lemma pop_last_divider_rows:
  assumes "rows \<noteq> []"
  shows "pop_last_divider (append_rows d rows []) = butlast (concat (map (row_blocks d) rows)) \<and>
         butlast (concat (map (row_blocks d) rows)) \<noteq> [] \<and>
         last (butlast (concat (map (row_blocks d) rows))) \<noteq> Divider"
proof -
  obtain pre where pre: "concat (map (row_blocks d) rows) = pre @ [Divider]" "pre \<noteq> []" "last pre \<noteq> Divider"
    using concat_row_blocks_shape [OF assms] by blast
  then show ?thesis
    by (simp add: append_rows_concat pop_last_divider_def divider_type)
qed

text \<open>
  C3. When the query returns no row, \<open>get_resource_info\<close> returns the ephemeral text
  "No information found for resource: *name*.". When it returns at least one row, it
  returns an ephemeral blocks reply whose list is the contributions of the rows in order
  (\<open>row_blocks\<close>: section, actions with the console button only for a non-empty URL,
  divider) without the final divider; that list is not empty and does not end in a
  divider.
\<close>

theorem get_resource_info_reply:
  "(query_instances d n = Inr [] \<longrightarrow>
      get_resource_info d n =
        (Inr (TextPayload (u ''ephemeral'') (u ''No information found for resource: *'' @ n @ u ''*.'')),
         [InstancesQuery n])) \<and>
   (query_instances d n = Inr rows \<and> rows \<noteq> [] \<longrightarrow>
      get_resource_info d n =
        (Inr (BlocksPayload (u ''ephemeral'') (butlast (concat (map (row_blocks d) rows)))),
         [InstancesQuery n]) \<and>
      butlast (concat (map (row_blocks d) rows)) \<noteq> [] \<and>
      last (butlast (concat (map (row_blocks d) rows))) \<noteq> Divider)"
  using pop_last_divider_rows [of rows]
  by (auto simp: get_resource_info_def)

theorem get_resource_info_reply_witness:
  "get_resource_info example_deps (u ''my-vm'') =
     (Inr (TextPayload (u ''ephemeral'') (u ''No information found for resource: *my-vm*.'')),
      [InstancesQuery (u ''my-vm'')]) \<and>
   get_resource_info
     (example_deps\<lparr>query_instances := (\<lambda>n. Inr [example_row, example_row\<lparr>instance_console_url := None\<rparr>])\<rparr>)
     (u ''my-vm'') =
     (Inr (BlocksPayload (u ''ephemeral'')
            [Section (message_text example_deps example_row),
             Actions [Button ([128279] @ u '' Open in GCP Console'') True (u ''https://console.cloud.google.com/x'')],
             Divider,
             Section (message_text example_deps (example_row\<lparr>instance_console_url := None\<rparr>))]),
      [InstancesQuery (u ''my-vm'')])"
  using get_resource_info_reply [of example_deps "u ''my-vm''" "[]"]
        get_resource_info_reply
          [of "example_deps\<lparr>query_instances := (\<lambda>n. Inr [example_row, example_row\<lparr>instance_console_url := None\<rparr>])\<rparr>"
              "u ''my-vm''" "[example_row, example_row\<lparr>instance_console_url := None\<rparr>]"]
  by (simp add: example_deps_def row_blocks_def example_row_def message_text_def
      formatted_time_def dmy_hm_def year_text_def u_def)


section \<open>Unknown commands\<close>

text \<open>
  C5. For a command other than \<open>/getinfo\<close> and \<open>/checkstatus\<close> and any parameter,
  \<open>menu_controller\<close> returns (it raises nothing, and sends no query) the ephemeral text
  "Command '...' not recognized."; and an authenticated request with such a command and
  a one-token parameter gets that payload from \<open>request_handler\<close>, not an error status.
\<close>

theorem unknown_command_not_recognized:
  assumes "command \<noteq> u ''/getinfo''" and "command \<noteq> u ''/checkstatus''"
  shows "menu_controller d command parameter =
           (Inr (TextPayload (u ''ephemeral'')
                   (u ''Command '' @ [39] @ command @ [39] @ u '' not recognized.'')),
            [Routed command parameter]) \<and>
         (content_type r = Some (u ''application/x-www-form-urlencoded'') \<and>
          verify_slack_signature d r = Inr True \<and>
          py_strip (get_or_empty (form_command r)) = command \<and> command \<noteq> [] \<and>
          length (py_split (get_or_empty (form_text r))) = 1 \<longrightarrow>
            fst (request_handler d r) =
              Json (TextPayload (u ''ephemeral'')
                     (u ''Command '' @ [39] @ command @ [39] @ u '' not recognized.'')))"
proof -
  have m: "\<And>x. menu_controller d command x =
           (Inr (TextPayload (u ''ephemeral'')
                   (u ''Command '' @ [39] @ command @ [39] @ u '' not recognized.'')),
            [Routed command x])"
    using assms by (simp add: menu_controller_def)
  have "fst (request_handler d r) =
              Json (TextPayload (u ''ephemeral'')
                     (u ''Command '' @ [39] @ command @ [39] @ u '' not recognized.''))"
    if "content_type r = Some (u ''application/x-www-form-urlencoded'')"
      and "verify_slack_signature d r = Inr True"
      and "py_strip (get_or_empty (form_command r)) = command" and "command \<noteq> []"
      and "length (py_split (get_or_empty (form_text r))) = 1"
    using that(1-4) single_token_passes [OF that(5)]
    by (simp add: request_handler_def Let_def m)
  with m show ?thesis by blast
qed

theorem unknown_command_not_recognized_witness:
  "menu_controller example_deps (u ''/foo'') (u ''bar'') =
     (Inr (TextPayload (u ''ephemeral'') (u ''Command '' @ [39] @ u ''/foo'' @ [39] @ u '' not recognized.'')),
      [Routed (u ''/foo'') (u ''bar'')]) \<and>
   fst (request_handler example_deps
          (example_request\<lparr>form_command := Some (u ''/foo''), form_text := Some (u ''bar'')\<rparr>)) =
     Json (TextPayload (u ''ephemeral'') (u ''Command '' @ [39] @ u ''/foo'' @ [39] @ u '' not recognized.''))"
proof -
  have c: "py_strip (u ''/foo'') = u ''/foo''"
    by (simp add: py_strip_def py_isspace_def u_def)
  have t: "py_split (u ''bar'') = [u ''bar'']"
    by (simp add: py_split_def py_isspace_def u_def)
  have n: "u ''/foo'' \<noteq> u ''/getinfo''" "u ''/foo'' \<noteq> u ''/checkstatus''" "u ''/foo'' \<noteq> []"
    by (simp_all add: u_def)
  show ?thesis
    using unknown_command_not_recognized
            [OF n(1,2), of example_deps "u ''bar''"
               "example_request\<lparr>form_command := Some (u ''/foo''), form_text := Some (u ''bar'')\<rparr>"]
    by (simp add: example_request_signed example_request_content_type get_or_empty_def c t n)
qed


section \<open>The content type\<close>

lemma on_exception_Json: "\<exists>p. on_exception e = Json p"
  by (cases e) (simp_all add: on_exception_def)

text \<open>
  C7. A request whose \<open>Content-Type\<close> header is missing or differs from
  \<open>application/x-www-form-urlencoded\<close> gets the plain string with status 400, and no
  other request does: with that content type the handler returns a payload dictionary.
\<close>

theorem content_type_rejection:
  "(content_type r \<noteq> Some (u ''application/x-www-form-urlencoded'') \<longrightarrow>
      request_handler d r =
        (Plain (u ''This request does not appear to be from Slack (incorrect Content-Type).'') 400, [])) \<and>
   (content_type r = Some (u ''application/x-www-form-urlencoded'') \<longrightarrow>
      (\<exists>p. fst (request_handler d r) = Json p))"
  using on_exception_Json
  by (auto simp: request_handler_def Let_def split: sum.splits prod.splits)

theorem content_type_rejection_witness:
  "request_handler example_deps (example_request\<lparr>content_type := Some (u ''application/json'')\<rparr>) =
     (Plain (u ''This request does not appear to be from Slack (incorrect Content-Type).'') 400, []) \<and>
   (\<exists>p. fst (request_handler example_deps example_request) = Json p)"
  using content_type_rejection
          [of "example_request\<lparr>content_type := Some (u ''application/json'')\<rparr>" example_deps]
        content_type_rejection [of example_request example_deps]
  by (simp add: example_request_def u_def)


section \<open>Every reply is ephemeral\<close>

lemma response_type_get_resource_info:
  "get_resource_info d n = (Inr p, es) \<Longrightarrow> response_type p = u ''ephemeral''"
  by (auto simp: get_resource_info_def split: sum.splits if_splits)

lemma response_type_check_resource_status:
  "check_resource_status d n = (Inr p, es) \<Longrightarrow> response_type p = u ''ephemeral''"
  by (auto simp: check_resource_status_def split: sum.splits list.splits)

lemma response_type_menu_controller:
  "menu_controller d c x = (Inr p, es) \<Longrightarrow> response_type p = u ''ephemeral''"
  by (auto simp: menu_controller_def split: if_splits prod.splits
      dest: response_type_get_resource_info response_type_check_resource_status)

lemma response_type_on_exception:
  "on_exception e = Json p \<Longrightarrow> response_type p = u ''ephemeral''"
  by (auto simp: on_exception_def split: exn.splits)

lemma example_request_reply:
  "fst (request_handler example_deps example_request) =
     Json (TextPayload (u ''ephemeral'') (u ''No information found for resource: *my-vm*.''))"
  by (simp add: example_deps_def example_request_def request_handler_def
      verify_slack_signature_def get_or_empty_def py_strip_def py_isspace_def py_split_def
      sanitize_eq in_class_def ascii_lower_def menu_controller_def get_resource_info_def u_def)

text \<open>
  C9. Whatever the request and whatever the collaborators do, a payload dictionary
  returned by \<open>request_handler\<close> has \<open>response_type\<close> "ephemeral".
\<close>

theorem every_payload_ephemeral:
  "fst (request_handler d r) = Json p \<Longrightarrow> response_type p = u ''ephemeral''"
  by (auto simp: request_handler_def Let_def split: if_splits sum.splits prod.splits
      dest: response_type_on_exception response_type_menu_controller)

theorem every_payload_ephemeral_witness:
  "fst (request_handler example_deps example_request) =
     Json (TextPayload (u ''ephemeral'') (u ''No information found for resource: *my-vm*.'')) \<and>
   response_type (TextPayload (u ''ephemeral'') (u ''No information found for resource: *my-vm*.'')) =
     u ''ephemeral''"
  using every_payload_ephemeral [OF example_request_reply] example_request_reply
  by simp


section \<open>The status reply\<close>

lemma status_text_parts:
  "status_text d n row =
     fst (emoji_message (unicode_lower d) n row) @ u '' '' @
     snd (emoji_message (unicode_lower d) n row) @ detail_lines d row"
  by (simp add: status_text_def detail_lines_def Let_def split: prod.splits)

lemma check_resource_status_row:
  "query_status d n = Inr (row # rest) \<Longrightarrow>
   check_resource_status d n =
     (Inr (TextPayload (u ''ephemeral'') (status_text d n row)), [StatusQuery n])"
  by (simp add: check_resource_status_def)

lemma py_in_sublist: "py_in w s \<longleftrightarrow> sublist w s"
  by (simp add: py_in_iff sublist_def)

text \<open>The chain of tests of lines 303-311 is the three-tier rule on \<open>status_value\<close>.\<close>

lemma emoji_message_tier:
  "emoji_message ulower n row =
     (tier_glyph (tier_by (\<lambda>w. sublist w (status_value ulower row))),
      u ''Resource *'' @ or_default (item_name row) n @
      tier_wording (tier_by (\<lambda>w. sublist w (status_value ulower row))) @
      or_default (current_status row) (u ''N/A'') @ u ''*.'')"
  by (simp add: emoji_message_def tier_by_def py_in_sublist Let_def)

lemma status_text_tier:
  "status_text d n row =
     tier_reply d (tier_by (\<lambda>w. sublist w (status_value (unicode_lower d) row))) n row"
  by (simp add: status_text_parts emoji_message_tier tier_reply_def) (simp add: u_def)

lemma tier_examples:
  "tier_by (contains_ci (u ''Active'')) = Favorable"
  "tier_by (contains_ci (u ''Pending Review'')) = Pending"
  "tier_by (contains_ci (u ''Failed'')) = Unfavorable"
  by (simp_all add: tier_by_def contains_ci_def py_in_sublist [symmetric] ascii_lower_def u_def)

text \<open>
  C4. When the status table returns a row with a status \<open>s\<close>, the reply of
  \<open>check_resource_status\<close> is that of the tier which the three-tier rule gives for the
  words contained in the lower-cased \<open>s\<close>; for an ASCII status, for the words contained in
  \<open>s\<close> case-insensitively. So "Active" gives the check mark and the favorable message,
  "Pending Review" the hourglass and the plain status message, "Failed" the cross and the
  message that asks for attention; each followed by the details and last-checked lines.
\<close>

theorem status_tiers:
  assumes "query_status d n = Inr (row # rest)" and "current_status row = Some s"
  shows
   "fst (check_resource_status d n) =
      Inr (TextPayload (u ''ephemeral'')
            (tier_reply d (tier_by (\<lambda>w. sublist w (py_lower (unicode_lower d) s))) n row)) \<and>
    (is_ascii s \<longrightarrow>
       fst (check_resource_status d n) =
         Inr (TextPayload (u ''ephemeral'') (tier_reply d (tier_by (contains_ci s)) n row))) \<and>
    (s = u ''Active'' \<longrightarrow>
       fst (check_resource_status d n) =
         Inr (TextPayload (u ''ephemeral'')
               ([9989] @ u '' Resource *'' @ or_default (item_name row) n @
                u ''* has a favorable status: *Active*.'' @ detail_lines d row))) \<and>
    (s = u ''Pending Review'' \<longrightarrow>
       fst (check_resource_status d n) =
         Inr (TextPayload (u ''ephemeral'')
               ([9203] @ u '' Resource *'' @ or_default (item_name row) n @
                u ''* has status: *Pending Review*.'' @ detail_lines d row))) \<and>
    (s = u ''Failed'' \<longrightarrow>
       fst (check_resource_status d n) =
         Inr (TextPayload (u ''ephemeral'')
               ([10060] @ u '' Resource *'' @ or_default (item_name row) n @
                u ''* requires attention. Status: *Failed*.'' @ detail_lines d row)))"
proof -
  have sv: "status_value (unicode_lower d) row = py_lower (unicode_lower d) s"
    using assms(2) by (simp add: status_value_def)
  have general: "fst (check_resource_status d n) =
      Inr (TextPayload (u ''ephemeral'')
            (tier_reply d (tier_by (\<lambda>w. sublist w (py_lower (unicode_lower d) s))) n row))"
    by (simp add: check_resource_status_row [OF assms(1)] status_text_tier sv)
  have ascii: "fst (check_resource_status d n) =
         Inr (TextPayload (u ''ephemeral'') (tier_reply d (tier_by (contains_ci s)) n row))"
    if "is_ascii s"
  proof -
    from that have "(\<lambda>w. sublist w (py_lower (unicode_lower d) s)) = contains_ci s"
      by (simp add: py_lower_def contains_ci_def fun_eq_iff)
    with general show ?thesis by simp
  qed
  have ia: "is_ascii (u ''Active'')" "is_ascii (u ''Pending Review'')" "is_ascii (u ''Failed'')"
    by (simp_all add: is_ascii_def u_def)
  have active: "fst (check_resource_status d n) =
         Inr (TextPayload (u ''ephemeral'')
               ([9989] @ u '' Resource *'' @ or_default (item_name row) n @
                u ''* has a favorable status: *Active*.'' @ detail_lines d row))"
    if "s = u ''Active''"
    using ascii ia(1) assms(2) that
    by (simp add: tier_examples tier_reply_def or_default_def) (simp add: u_def)
  have pending: "fst (check_resource_status d n) =
         Inr (TextPayload (u ''ephemeral'')
               ([9203] @ u '' Resource *'' @ or_default (item_name row) n @
                u ''* has status: *Pending Review*.'' @ detail_lines d row))"
    if "s = u ''Pending Review''"
    using ascii ia(2) assms(2) that
    by (simp add: tier_examples tier_reply_def or_default_def) (simp add: u_def)
  have failed: "fst (check_resource_status d n) =
         Inr (TextPayload (u ''ephemeral'')
               ([10060] @ u '' Resource *'' @ or_default (item_name row) n @
                u ''* requires attention. Status: *Failed*.'' @ detail_lines d row))"
    if "s = u ''Failed''"
    using ascii ia(3) assms(2) that
    by (simp add: tier_examples tier_reply_def or_default_def) (simp add: u_def)
  from general ascii active pending failed show ?thesis by blast
qed

theorem status_tiers_witness:
  "is_ascii (u ''Is ACTIVE'') \<and>
   fst (check_resource_status
          (example_deps\<lparr>query_status := (\<lambda>n. Inr [example_status_row\<lparr>current_status := Some (u ''Is ACTIVE'')\<rparr>])\<rparr>)
          (u ''my-vm'')) =
     Inr (TextPayload (u ''ephemeral'')
           ([9989] @ u '' Resource *my-vm* has a favorable status: *Is ACTIVE*.'' @ [10] @
            u ''   '' @ [8226] @ u '' Details: _No additional details._'' @ [10] @
            u ''   '' @ [8226] @ u '' Last checked: _Not available_''))"
proof -
  let ?row = "example_status_row\<lparr>current_status := Some (u ''Is ACTIVE'')\<rparr>"
  let ?d = "example_deps\<lparr>query_status := (\<lambda>n. Inr [?row])\<rparr>"
  have i: "is_ascii (u ''Is ACTIVE'')"
    by (simp add: is_ascii_def u_def)
  have t: "tier_by (contains_ci (u ''Is ACTIVE'')) = Favorable"
    by (simp add: tier_by_def contains_ci_def py_in_sublist [symmetric] ascii_lower_def u_def)
  have q: "query_status ?d (u ''my-vm'') = Inr (?row # [])"
    by simp
  have c: "current_status ?row = Some (u ''Is ACTIVE'')"
    by simp
  from status_tiers [OF q c] i
  have "fst (check_resource_status ?d (u ''my-vm'')) =
          Inr (TextPayload (u ''ephemeral'')
                (tier_reply ?d (tier_by (contains_ci (u ''Is ACTIVE''))) (u ''my-vm'') ?row))"
    by blast
  then have "fst (check_resource_status ?d (u ''my-vm'')) =
     Inr (TextPayload (u ''ephemeral'')
           ([9989] @ u '' Resource *my-vm* has a favorable status: *Is ACTIVE*.'' @ [10] @
            u ''   '' @ [8226] @ u '' Details: _No additional details._'' @ [10] @
            u ''   '' @ [8226] @ u '' Last checked: _Not available_''))"
    by (simp add: t tier_reply_def example_status_row_def or_default_def detail_lines_def
        formatted_time_def)
       (simp add: u_def)
  with i show ?thesis by simp
qed

lemma unknown_tests:
  "\<not> py_in (u ''active'') (u ''unknown'')" "\<not> py_in (u ''ok'') (u ''unknown'')"
  "\<not> py_in (u ''complete'') (u ''unknown'')" "\<not> py_in (u ''pending'') (u ''unknown'')"
  "\<not> py_in (u ''in progress'') (u ''unknown'')"
  by (simp_all add: u_def)

text \<open>
  C10, as amended. The favorable test comes first: a row whose lower-cased status
  contains "active", "ok" or "complete" gets the check mark and the favorable message,
  whatever else the status contains (for instance "Pending, then Active"); in
  particular an ASCII status with a substring that is one of the three words up to the
  case of its letters. A row whose status is NULL has \<open>status_value\<close> "unknown" and gets
  the cross and the message that asks for attention, with "N/A" shown as the status.
\<close>

theorem favorable_tier_first:
  "(current_status row = Some s \<and>
    (py_in (u ''active'') (py_lower ulower s) \<or> py_in (u ''ok'') (py_lower ulower s) \<or>
     py_in (u ''complete'') (py_lower ulower s)) \<longrightarrow>
      emoji_message ulower n row =
        ([9989], u ''Resource *'' @ or_default (item_name row) n @ u ''* has a favorable status: *'' @
                 or_default (Some s) (u ''N/A'') @ u ''*.'')) \<and>
   (current_status row = Some (ps @ t @ ss) \<and> is_ascii (ps @ t @ ss) \<and>
    (map ascii_lower t = u ''active'' \<or> map ascii_lower t = u ''ok'' \<or>
     map ascii_lower t = u ''complete'') \<longrightarrow>
      fst (emoji_message ulower n row) = [9989]) \<and>
   (current_status row = None \<longrightarrow>
      status_value ulower row = u ''unknown'' \<and>
      emoji_message ulower n row =
        ([10060], u ''Resource *'' @ or_default (item_name row) n @
                  u ''* requires attention. Status: *N/A*.''))"
proof (intro conjI impI)
  assume "current_status row = Some s \<and>
    (py_in (u ''active'') (py_lower ulower s) \<or> py_in (u ''ok'') (py_lower ulower s) \<or>
     py_in (u ''complete'') (py_lower ulower s))"
  then show "emoji_message ulower n row =
        ([9989], u ''Resource *'' @ or_default (item_name row) n @ u ''* has a favorable status: *'' @
                 or_default (Some s) (u ''N/A'') @ u ''*.'')"
    by (simp add: emoji_message_def status_value_def)
next
  assume a: "current_status row = Some (ps @ t @ ss) \<and> is_ascii (ps @ t @ ss) \<and>
    (map ascii_lower t = u ''active'' \<or> map ascii_lower t = u ''ok'' \<or>
     map ascii_lower t = u ''complete'')"
  then have "py_in (map ascii_lower t) (py_lower ulower (ps @ t @ ss))"
    using ascii_ci_substring [of "ps @ t @ ss" "map ascii_lower t" ulower] by blast
  with a have "py_in (u ''active'') (status_value ulower row) \<or>
      py_in (u ''ok'') (status_value ulower row) \<or> py_in (u ''complete'') (status_value ulower row)"
    by (auto simp: status_value_def)
  then show "fst (emoji_message ulower n row) = [9989]"
    by (simp add: emoji_message_def)
next
  assume "current_status row = None"
  then show "status_value ulower row = u ''unknown''"
    by (simp add: status_value_def)
next
  assume "current_status row = None"
  then show "emoji_message ulower n row =
        ([10060], u ''Resource *'' @ or_default (item_name row) n @
                  u ''* requires attention. Status: *N/A*.'')"
    by (simp add: emoji_message_def status_value_def unknown_tests or_default_def) (simp add: u_def)
qed

theorem favorable_tier_first_witness:
  "py_in (u ''pending'') (py_lower id (u ''Pending, then Active'')) \<and>
   emoji_message id (u ''vm-1'') (example_status_row\<lparr>current_status := Some (u ''Pending, then Active'')\<rparr>) =
     ([9989], u ''Resource *my-vm* has a favorable status: *Pending, then Active*.'') \<and>
   fst (emoji_message id (u ''vm-1'')
          (example_status_row\<lparr>current_status := Some (u ''Pending, then '' @ u ''Active'' @ [])\<rparr>)) = [9989] \<and>
   emoji_message id (u ''vm-1'') (example_status_row\<lparr>current_status := None\<rparr>) =
     ([10060], u ''Resource *my-vm* requires attention. Status: *N/A*.'')"
proof -
  have l: "py_lower id (u ''Pending, then Active'') = u ''pending, then active''"
    by (simp add: py_lower_def is_ascii_def ascii_lower_def u_def)
  have a: "py_in (u ''active'') (u ''pending, then active'')"
    by (simp add: u_def)
  have p: "py_in (u ''pending'') (u ''pending, then active'')"
    by (simp add: u_def)
  have i: "is_ascii (u ''Pending, then '' @ u ''Active'' @ [])"
    by (simp add: is_ascii_def u_def)
  have m: "map ascii_lower (u ''Active'') = u ''active''"
    by (simp add: ascii_lower_def u_def)
  show ?thesis
    using favorable_tier_first
            [of "example_status_row\<lparr>current_status := Some (u ''Pending, then Active'')\<rparr>"
                "u ''Pending, then Active''" id "u ''vm-1''" "[]" "[]" "[]"]
          favorable_tier_first
            [of "example_status_row\<lparr>current_status := Some (u ''Pending, then '' @ u ''Active'' @ [])\<rparr>"
                "[]" id "u ''vm-1''" "u ''Pending, then ''" "u ''Active''" "[]"]
          favorable_tier_first
            [of "example_status_row\<lparr>current_status := None\<rparr>" "[]" id "u ''vm-1''" "[]" "[]" "[]"]
          a p i m
    by (simp add: l example_status_row_def or_default_def) (simp add: u_def)
qed

text \<open>
  Counterexample to C10 as stated, at its own example: the status "Pending activation"
  contains "pending" but not "active" ("activation" has no \<open>e\<close> after \<open>activ\<close>), so
  it gets the hourglass, not the check mark.
\<close>

theorem pending_activation_counterexample:
  "py_in (u ''pending'') (py_lower id (u ''Pending activation'')) \<and>
   \<not> py_in (u ''active'') (py_lower id (u ''Pending activation'')) \<and>
   fst (emoji_message id (u ''my-vm'') example_status_row) = [9203] \<and>
   fst (emoji_message id (u ''my-vm'') example_status_row) \<noteq> [9989]"
proof -
  have l: "py_lower id (u ''Pending activation'') = u ''pending activation''"
    by (simp add: py_lower_def is_ascii_def ascii_lower_def u_def)
  show ?thesis
    by (simp add: emoji_message_def status_value_def example_status_row_def l) (simp add: u_def)
qed


section \<open>Timestamps\<close>

text \<open>
  Counterexample to C8 as stated. A timestamp column that holds the empty string, or the
  integer 0, is present and not a date/time, and its string form is the empty string, or
  "0"; the rendered text is "Not available", as the section text of such a row shows.
  And where the platform prints a year below 1000 without padding, the year 999 is
  rendered with three digits.
\<close>

theorem empty_timestamp_counterexample:
  "formatted_time example_deps (Some (Unstructured (StrValue []))) = u ''Not available'' \<and>
   py_str (StrValue []) = [] \<and>
   formatted_time example_deps (Some (Unstructured (IntValue 0))) = u ''Not available'' \<and>
   py_str (IntValue 0) = u ''0'' \<and>
   formatted_time example_deps
     (Some (Structured (DateTimeObj \<lparr>year = 999, month = 1, day = 2, hour = 3, minute = 4\<rparr>))) =
     u ''02-01-999 at 03:04 UTC'' \<and>
   message_text example_deps (example_row\<lparr>creation_timestamp := Some (Unstructured (StrValue []))\<rparr>) =
     [8505, 65039] @ u '' Information for *my-vm* (ID: *1234*):'' @ [10] @
     u ''   '' @ [8226] @ u '' Project: *proj*'' @ [10] @
     u ''   '' @ [8226] @ u '' Status: *RUNNING*'' @ [10] @
     u ''   '' @ [8226] @ u '' Zone: *z1*'' @ [10] @
     u ''   '' @ [8226] @ u '' Machine Type: *N/A*'' @ [10] @
     u ''   '' @ [8226] @ u '' Created/Updated: _Not available_''"
proof -
  have y: "decimal 999 = u ''999''"
    by (simp add: decimal.simps [of 999] decimal.simps [of 99] decimal.simps [of 9] digit_def u_def)
  have z: "decimal 0 = u ''0''"
    by (simp add: decimal.simps [of 0] digit_def u_def)
  show ?thesis
    by (simp add: formatted_time_def message_text_def example_row_def or_default_def
        dmy_hm_def year_text_def example_deps_def pad2_def digit_def str_int_def y z)
       (simp add: u_def)
qed

lemma message_text_ends:
  "\<exists>pre. message_text d row =
      pre @ u ''Created/Updated: _'' @ formatted_time d (creation_timestamp row) @ u ''_''"
  unfolding message_text_def
  by (rule exI [of _ "[8505, 65039] @ u '' Information for *'' @ or_default (instance_name row) (u ''N/A'') @
     u ''* (ID: *'' @ or_default (instance_id row) (u ''N/A'') @ u ''*):'' @ [10] @
     u ''   '' @ [8226] @ u '' Project: *'' @ or_default (project_id row) (u ''N/A'') @ u ''*'' @ [10] @
     u ''   '' @ [8226] @ u '' Status: *'' @ or_default (status row) (u ''N/A'') @ u ''*'' @ [10] @
     u ''   '' @ [8226] @ u '' Zone: *'' @ or_default (zone row) (u ''N/A'') @ u ''*'' @ [10] @
     u ''   '' @ [8226] @ u '' Machine Type: *'' @ or_default (machine_type row) (u ''N/A'') @ u ''*'' @ [10] @
     u ''   '' @ [8226] @ u '' ''"]) (simp add: u_def)

lemma status_text_ends:
  "\<exists>pre. status_text d n srow =
      pre @ u ''Last checked: _'' @ formatted_time d (last_checked srow) @ u ''_''"
  unfolding status_text_parts detail_lines_def
  by (rule exI [of _ "fst (emoji_message (unicode_lower d) n srow) @ u '' '' @
       snd (emoji_message (unicode_lower d) n srow) @
       [10] @ u ''   '' @ [8226] @ u '' Details: _'' @
       or_default (details srow) (u ''No additional details.'') @ u ''_'' @ [10] @
       u ''   '' @ [8226] @ u '' ''"]) (simp add: u_def)

text \<open>
  C8, as amended. \<open>formatted_time\<close> renders a \<open>datetime\<close> as day, month, year, hour and
  minute in the form \<open>DD-MM-YYYY at HH:MM UTC\<close>, zero-padded, when the year is at least
  1000 (below that the year is as the platform prints it); a \<open>date\<close> likewise with
  00:00, a \<open>time\<close> with 01-01-1900; a truthy value that is no date or time (a non-empty
  string, a non-zero integer) as its \<open>str\<close>; a falsy one (the empty string, 0) and NULL
  as "Not available". The section text of a resource row ends with that rendering of
  \<open>creation_timestamp\<close>, the status text with that of \<open>last_checked\<close>.
\<close>

theorem timestamp_rendering:
  "formatted_time d (Some (Structured (DateTimeObj t))) =
     pad2 (day t) @ u ''-'' @ pad2 (month t) @ u ''-'' @ year_text d (year t) @ u '' at '' @
     pad2 (hour t) @ u '':'' @ pad2 (minute t) @ u '' UTC'' \<and>
   formatted_time d (Some (Structured (DateObj y m dd))) =
     pad2 dd @ u ''-'' @ pad2 m @ u ''-'' @ year_text d y @ u '' at 00:00 UTC'' \<and>
   formatted_time d (Some (Structured (TimeObj h mi))) =
     u ''01-01-1900 at '' @ pad2 h @ u '':'' @ pad2 mi @ u '' UTC'' \<and>
   (1000 \<le> y \<longrightarrow> year_text d y = pad4 y) \<and>
   (y < 1000 \<longrightarrow> year_text d y = year_below_1000 d y) \<and>
   (truthy x \<longrightarrow> formatted_time d (Some (Unstructured x)) = py_str x) \<and>
   (\<not> truthy x \<longrightarrow> formatted_time d (Some (Unstructured x)) = u ''Not available'') \<and>
   (s \<noteq> [] \<longrightarrow> formatted_time d (Some (Unstructured (StrValue s))) = s) \<and>
   formatted_time d (Some (Unstructured (StrValue []))) = u ''Not available'' \<and>
   (i \<noteq> 0 \<longrightarrow> formatted_time d (Some (Unstructured (IntValue i))) = str_int i) \<and>
   formatted_time d (Some (Unstructured (IntValue 0))) = u ''Not available'' \<and>
   formatted_time d None = u ''Not available'' \<and>
   (\<exists>pre. message_text d row =
      pre @ u ''Created/Updated: _'' @ formatted_time d (creation_timestamp row) @ u ''_'') \<and>
   (\<exists>pre. status_text d n srow =
      pre @ u ''Last checked: _'' @ formatted_time d (last_checked srow) @ u ''_'')"
proof -
  have t: "formatted_time d (Some (Structured (TimeObj h mi))) =
     u ''01-01-1900 at '' @ pad2 h @ u '':'' @ pad2 mi @ u '' UTC''"
    by (simp add: formatted_time_def dmy_hm_def year_text_def pad2_def pad4_def digit_def u_def)
  have dt: "formatted_time d (Some (Structured (DateObj y m dd))) =
     pad2 dd @ u ''-'' @ pad2 m @ u ''-'' @ year_text d y @ u '' at 00:00 UTC''"
    by (simp add: formatted_time_def dmy_hm_def) (simp add: pad2_def digit_def u_def)
  show ?thesis
    using message_text_ends [of d row] status_text_ends [of d n srow] t dt
    by (simp add: formatted_time_def dmy_hm_def year_text_def)
qed

theorem timestamp_rendering_witness:
  "formatted_time example_deps
     (Some (Structured (DateTimeObj \<lparr>year = 2024, month = 3, day = 7, hour = 9, minute = 5\<rparr>))) =
     u ''07-03-2024 at 09:05 UTC'' \<and>
   formatted_time example_deps (Some (Structured (DateObj 2024 3 7))) = u ''07-03-2024 at 00:00 UTC'' \<and>
   formatted_time example_deps (Some (Structured (TimeObj 9 5))) = u ''01-01-1900 at 09:05 UTC'' \<and>
   formatted_time example_deps (Some (Unstructured (StrValue (u ''yesterday'')))) = u ''yesterday'' \<and>
   formatted_time example_deps (Some (Unstructured (OtherValue False (u ''0.0'')))) =
     u ''Not available''"
  using timestamp_rendering
     [of example_deps "\<lparr>year = 2024, month = 3, day = 7, hour = 9, minute = 5\<rparr>" 2024 3 7 9 5
         "StrValue (u ''yesterday'')" "u ''yesterday''" 1 example_row "[]" example_status_row]
        timestamp_rendering
     [of example_deps "\<lparr>year = 2024, month = 3, day = 7, hour = 9, minute = 5\<rparr>" 2024 3 7 9 5
         "OtherValue False (u ''0.0'')" "u ''yesterday''" 1 example_row "[]" example_status_row]
  by (simp add: pad2_def pad4_def digit_def) (simp add: u_def)


section \<open>The parameter check\<close>

text \<open>
  C6, as amended. A request with the form content type and a valid signature, whose text
  field is empty or has more than one whitespace-delimited token, causes no routing and
  no query. If its command is not empty after stripping, the reply is the ephemeral usage
  message that repeats the command; if the command is empty, the reply is
  "Error: No command was provided.".
\<close>

theorem bad_parameter_usage_message:
  assumes "content_type r = Some (u ''application/x-www-form-urlencoded'')"
    and "verify_slack_signature d r = Inr True"
    and "get_or_empty (form_text r) = [] \<or> 1 < length (py_split (get_or_empty (form_text r)))"
  shows "snd (request_handler d r) = [] \<and>
         (py_strip (get_or_empty (form_command r)) \<noteq> [] \<longrightarrow>
            fst (request_handler d r) =
              Json (TextPayload (u ''ephemeral'')
                     (u ''Error: A single parameter was expected. Example: '' @
                      py_strip (get_or_empty (form_command r)) @ u '' my-resource''))) \<and>
         (py_strip (get_or_empty (form_command r)) = [] \<longrightarrow>
            fst (request_handler d r) =
              Json (TextPayload (u ''ephemeral'') (u ''Error: No command was provided.'')))"
  using assms(1,2) bad_parameter_rejected [OF assms(3)]
  by (auto simp: request_handler_def Let_def)

theorem bad_parameter_usage_message_witness:
  "request_handler example_deps (example_request\<lparr>form_command := Some (u ''/getinfo''), form_text := Some (u ''foo bar'')\<rparr>) =
     (Json (TextPayload (u ''ephemeral'')
             (u ''Error: A single parameter was expected. Example: /getinfo my-resource'')), [])"
proof -
  have c: "py_strip (u ''/getinfo'') = u ''/getinfo''"
    by (simp add: py_strip_def py_isspace_def u_def)
  have n: "u ''/getinfo'' \<noteq> []"
    by (simp add: u_def)
  show ?thesis
    using bad_parameter_usage_message
            [of "example_request\<lparr>form_command := Some (u ''/getinfo''), form_text := Some (u ''foo bar'')\<rparr>"
                example_deps, OF _ example_request_signed]
    by (simp add: get_or_empty_def split_foo_bar c n example_request_content_type prod_eq_iff)
       (simp add: u_def)
qed

text \<open>
  Counterexample to C6 as stated: with a valid signature, the text "foo bar" and no
  command field, the reply is "Error: No command was provided.", not the usage message:
  the command is checked first.
\<close>

theorem missing_command_counterexample:
  "verify_slack_signature example_deps
     (example_request\<lparr>form_command := None, form_text := Some (u ''foo bar'')\<rparr>) = Inr True \<and>
   1 < length (py_split (u ''foo bar'')) \<and>
   request_handler example_deps (example_request\<lparr>form_command := None, form_text := Some (u ''foo bar'')\<rparr>) =
     (Json (TextPayload (u ''ephemeral'') (u ''Error: No command was provided.'')), [])"
  by (simp add: example_request_signed split_foo_bar)
     (simp add: request_handler_def example_request_signed py_strip_def get_or_empty_def
        example_request_content_type)

end
